theory Spec2Isabelle
  imports Complex_Main "HOL-Library.Word" "HOL-Library.Multiset"
begin

section \<open>Stock-Analysis dashboard: formatting helpers, rendering rules and the scoring contract\<close>

text \<open>
  The repository under \<^verbatim>\<open>src/\<close> is the React front end of the dashboard. Its pure
  helpers (\<^verbatim>\<open>utils/Formatters.js\<close>), the guards of the overview tab and the geometry of
  the Buffett tab are embedded below function by function. The Python back end that
  computes the Piotroski score, the KPI set and the Buffett entries is not part of the
  sources at hand; where a property is about that computation, the definition is taken
  from the written specification and marked as such.

  Numbers: JavaScript numbers and the JSON numbers of the API are modelled as \<^typ>\<open>real\<close>
  (integers such as \<^verbatim>\<open>total_score\<close> as \<^typ>\<open>int\<close>); \<^verbatim>\<open>NaN\<close> and the infinities cannot be
  carried by JSON and are left out. \<^verbatim>\<open>null\<close> and \<^verbatim>\<open>undefined\<close> are \<^term>\<open>None\<close>.
\<close>

subsection \<open>JavaScript strings\<close>

text \<open>
  A JavaScript string is a sequence of UTF-16 code units. ASCII text is written with
  \<open>ascii\<close>; the currency signs are given by their code units.
\<close>

type_synonym jsstring = "16 word list"

definition ascii :: "string \<Rightarrow> jsstring" where
  "ascii s = map of_char s"

subsection \<open>\<^verbatim>\<open>getPiotroskiColor\<close> (utils/Formatters.js) and the labels of the first \<^verbatim>\<open>App.jsx\<close>\<close>

text \<open>
  \<^verbatim>\<open>
  export const getPiotroskiColor = (score) => {
    if (score >= 7) return { text: '#22c55e', label: 'SOLIDE' };
    if (score >= 4) return { text: '#f59e0b', label: 'MOYEN' };
    return { text: '#ef4444', label: 'FAIBLE' };
  };
  \<close>
\<close>

record pio_color =
  text_color :: string
  label :: string

definition getPiotroskiColor :: "int \<Rightarrow> pio_color" where
  "getPiotroskiColor score =
     (if score \<ge> 7 then \<lparr>text_color = ''#22c55e'', label = ''SOLIDE''\<rparr>
      else if score \<ge> 4 then \<lparr>text_color = ''#f59e0b'', label = ''MOYEN''\<rparr>
      else \<lparr>text_color = ''#ef4444'', label = ''FAIBLE''\<rparr>)"

text \<open>
  \<^verbatim>\<open>
  const getScoreColor = (score) => {
    if (score >= 7) return 'text-green-400';
    if (score >= 4) return 'text-yellow-400';
    return 'text-red-400';
  };
  const getScoreLabel = (score) => {
    if (score >= 7) return 'EXCELLENT';
    if (score >= 4) return 'MOYEN';
    return 'FAIBLE';
  };
  \<close>
\<close>

definition getScoreColor :: "int \<Rightarrow> string" where
  "getScoreColor score =
     (if score \<ge> 7 then ''text-green-400''
      else if score \<ge> 4 then ''text-yellow-400''
      else ''text-red-400'')"

definition getScoreLabel :: "int \<Rightarrow> string" where
  "getScoreLabel score =
     (if score \<ge> 7 then ''EXCELLENT''
      else if score \<ge> 4 then ''MOYEN''
      else ''FAIBLE'')"

text \<open>The three tiers the thresholds select.\<close>

datatype tier = Solid | Average | Weak

definition tier_of_label :: "string \<Rightarrow> tier option" where
  "tier_of_label l =
     (if l = ''SOLIDE'' \<or> l = ''EXCELLENT'' then Some Solid
      else if l = ''MOYEN'' then Some Average
      else if l = ''FAIBLE'' then Some Weak
      else None)"

subsection \<open>\<^verbatim>\<open>getCurrencySymbol\<close> (utils/Formatters.js)\<close>

text \<open>
  \<^verbatim>\<open>
  export const getCurrencySymbol = (currency) => {
    const symbols = { USD: '$', EUR: '<euro>', GBP: '<pound>', JPY: '<yen>' };
    return symbols[currency] || currency;
  };
  \<close>
  \<^verbatim>\<open>symbols\<close> is an object literal, so \<^verbatim>\<open>symbols[currency]\<close> is a property read: it finds
  the four own properties first and then follows the prototype chain to
  \<^verbatim>\<open>Object.prototype\<close>, whose members are functions (and, for \<^verbatim>\<open>__proto__\<close>, an object).
  A read of any other key is \<^verbatim>\<open>undefined\<close>.
\<close>

datatype jsvalue =
  JStr jsstring
  | JInherited jsstring \<comment> \<open>the member of \<^verbatim>\<open>Object.prototype\<close> of that name\<close>

definition symbols :: "(jsstring \<times> jsstring) list" where
  "symbols =
     [(ascii ''USD'', [0x24]), (ascii ''EUR'', [0x20AC]),
      (ascii ''GBP'', [0xA3]), (ascii ''JPY'', [0xA5])]"

definition object_prototype_keys :: "jsstring list" where
  "object_prototype_keys = map ascii
     [''constructor'', ''__proto__'', ''hasOwnProperty'', ''isPrototypeOf'',
      ''propertyIsEnumerable'', ''toLocaleString'', ''toString'', ''valueOf'',
      ''__defineGetter__'', ''__defineSetter__'', ''__lookupGetter__'', ''__lookupSetter__'']"

definition property_read :: "(jsstring \<times> jsstring) list \<Rightarrow> jsstring \<Rightarrow> jsvalue option" where
  "property_read obj k =
     (case map_of obj k of
        Some v \<Rightarrow> Some (JStr v)
      | None \<Rightarrow> if k \<in> set object_prototype_keys then Some (JInherited k) else None)"

fun truthy :: "jsvalue option \<Rightarrow> bool" where
  "truthy None = False"
| "truthy (Some (JStr s)) = (s \<noteq> [])"
| "truthy (Some (JInherited k)) = True"

definition getCurrencySymbol :: "jsstring \<Rightarrow> jsvalue" where
  "getCurrencySymbol currency =
     (case property_read symbols currency of
        Some v \<Rightarrow> if truthy (Some v) then v else JStr currency
      | None \<Rightarrow> JStr currency)"

subsection \<open>\<^verbatim>\<open>sortByYear\<close> (utils/Formatters.js)\<close>

text \<open>
  \<^verbatim>\<open>
  export const sortByYear = (arr) =>
    [...arr].sort((a, b) => a.year.localeCompare(b.year));
  \<close>
  The elements are the rows of \<^verbatim>\<open>dividend_history\<close> and \<^verbatim>\<open>profit_margin_history\<close>:
  objects with a string \<^verbatim>\<open>year\<close> and further fields, here the extension of the record.
\<close>

record yearly =
  year :: jsstring

text \<open>
  \<^verbatim>\<open>String.prototype.localeCompare\<close> returns a negative number, zero or a positive
  number. Which strings come first is decided by the collation of the host and its
  locale, not by the program (most hosts put \<^verbatim>\<open>a\<close> before \<^verbatim>\<open>B\<close>, which the order of the
  code units does not). The collation is therefore a parameter, named \<open>localeCompare\<close>,
  of everything that calls it. What the language standard requires of it, whatever
  the host, is that it is a consistent comparator, one that defines a total preorder
  of all strings: of two strings one is not after the other, and "not after" is
  transitive.
\<close>

type_synonym collation = "jsstring \<Rightarrow> jsstring \<Rightarrow> int"

definition consistent_comparator :: "collation \<Rightarrow> bool" where
  "consistent_comparator localeCompare =
     ((\<forall>a b. (localeCompare a b < 0) = (0 < localeCompare b a))
      \<and> (\<forall>a b c. localeCompare a b \<le> 0 \<and> localeCompare b c \<le> 0 \<longrightarrow> localeCompare a c \<le> 0))"

text \<open>
  \<^verbatim>\<open>Array.prototype.sort\<close> with a comparator is stable: elements the comparator calls
  equal keep their order. A stable insertion sort computes the same array: an element
  goes in front of the first later element that is not smaller.
\<close>

fun insert_by :: "('a \<Rightarrow> 'a \<Rightarrow> int) \<Rightarrow> 'a \<Rightarrow> 'a list \<Rightarrow> 'a list" where
  "insert_by cmp x [] = [x]"
| "insert_by cmp x (y # ys) =
     (if cmp x y \<le> 0 then x # y # ys else y # insert_by cmp x ys)"

fun array_sort :: "('a \<Rightarrow> 'a \<Rightarrow> int) \<Rightarrow> 'a list \<Rightarrow> 'a list" where
  "array_sort cmp [] = []"
| "array_sort cmp (x # xs) = insert_by cmp x (array_sort cmp xs)"

text \<open>The comparator of the source, \<^verbatim>\<open>(a, b) => a.year.localeCompare(b.year)\<close>.\<close>

definition by_year :: "collation \<Rightarrow> 'a yearly_scheme \<Rightarrow> 'a yearly_scheme \<Rightarrow> int" where
  "by_year localeCompare a b = localeCompare (year a) (year b)"

definition sortByYear :: "collation \<Rightarrow> 'a yearly_scheme list \<Rightarrow> 'a yearly_scheme list" where
  "sortByYear localeCompare arr = array_sort (by_year localeCompare) arr"

text \<open>
  Arrays are objects: \<^verbatim>\<open>sort\<close> reorders its receiver in place, and the spread
  \<^verbatim>\<open>[...arr]\<close> allocates a fresh array first. With the arrays of the program in a store
  (a reference is an index into it), the function returns the new reference and the
  new store.
\<close>

type_synonym 'a store = "'a list list"

definition spread :: "nat \<Rightarrow> 'a store \<Rightarrow> nat \<times> 'a store" where
  "spread r h = (length h, h @ [h ! r])"

definition sort_in_place :: "('a \<Rightarrow> 'a \<Rightarrow> int) \<Rightarrow> nat \<Rightarrow> 'a store \<Rightarrow> nat \<times> 'a store" where
  "sort_in_place cmp r h = (r, h[r := array_sort cmp (h ! r)])"

definition sortByYear_store ::
  "collation \<Rightarrow> nat \<Rightarrow> 'a yearly_scheme store \<Rightarrow> nat \<times> 'a yearly_scheme store" where
  "sortByYear_store localeCompare arr h =
     (case spread arr h of (c, h1) \<Rightarrow> sort_in_place (by_year localeCompare) c h1)"

text \<open>Ascending by year: the year of \<open>a\<close> is not after the year of \<open>b\<close> in the collation.\<close>

definition year_le :: "collation \<Rightarrow> 'a yearly_scheme \<Rightarrow> 'a yearly_scheme \<Rightarrow> bool" where
  "year_le localeCompare a b = (localeCompare (year a) (year b) \<le> 0)"

text \<open>
  Two collations to evaluate with. The first is the order of the code units, position
  by position, a proper prefix first; every collation agrees with it on labels of ASCII
  digits such as \<^verbatim>\<open>2023\<close>. The second compares sort keys, as collations do: first the
  letters with case set aside, then, for equal letters, lower case before upper case.
  On ASCII letters it orders as the usual hosts do, \<^verbatim>\<open>a\<close> before \<^verbatim>\<open>B\<close>.
\<close>

fun compare_lists :: "'a::linorder list \<Rightarrow> 'a list \<Rightarrow> int" where
  "compare_lists [] [] = 0"
| "compare_lists [] (y # ys) = - 1"
| "compare_lists (x # xs) [] = 1"
| "compare_lists (x # xs) (y # ys) =
     (if x < y then - 1 else if y < x then 1 else compare_lists xs ys)"

definition code_unit_collation :: collation where
  "code_unit_collation a b = compare_lists a b"

definition is_upper :: "16 word \<Rightarrow> bool" where
  "is_upper c = (0x41 \<le> c \<and> c \<le> 0x5A)"

definition fold_case :: "16 word \<Rightarrow> 16 word" where
  "fold_case c = (if is_upper c then c + 0x20 else c)"

definition sort_key :: "jsstring \<Rightarrow> nat list" where
  "sort_key s =
     map (\<lambda>c. Suc (unat (fold_case c))) s @ [0] @ map (\<lambda>c. if is_upper c then 1 else 0) s"

definition letter_collation :: collation where
  "letter_collation a b = compare_lists (sort_key a) (sort_key b)"

subsection \<open>Geometry of the Buffett tab (\<^verbatim>\<open>BuffettGauge\<close>, comparison bars)\<close>

text \<open>
  \<^verbatim>\<open>
  const BuffettGauge = ({ ratio, color }) => {
    const maxRatio = 200;
    const radius = 80;
    const circumference = Math.PI * radius;
    const progress = (Math.min(ratio, maxRatio) / maxRatio) * circumference;
  ...
    width: `${Math.min((c.ratio / 200) * 100, 100)}%`,
  \<close>
  \<open>progress\<close> is the dash length drawn along the half circle of length
  \<open>circumference\<close>.
\<close>

definition maxRatio :: real where
  "maxRatio = 200"

definition radius :: real where
  "radius = 80"

definition circumference :: real where
  "circumference = pi * radius"

definition progress :: "real \<Rightarrow> real" where
  "progress ratio = (min ratio maxRatio / maxRatio) * circumference"

definition bar_width :: "real \<Rightarrow> real" where
  "bar_width ratio = min ((ratio / 200) * 100) 100"

subsection \<open>Rendering of the KPI set (\<^verbatim>\<open>tabs/OverviewTab.jsx\<close>, \<^verbatim>\<open>MetricRow\<close>, \<^verbatim>\<open>getPERatioColor\<close>)\<close>

text \<open>
  The KPI object of the API response, with the field names the front end reads. A field
  the response lacks, or carries as \<^verbatim>\<open>null\<close>, is \<^term>\<open>None\<close>.
\<close>

record kpis =
  current_price :: "real option"
  price_change :: "real option"
  market_cap :: "real option"
  pe_ratio :: "real option"
  dividend_yield :: "real option"
  volume :: "real option"
  beta :: "real option"
  eps :: "real option"
  high_52w :: "real option"
  low_52w :: "real option"
  roe :: "real option"
  debt_to_equity :: "real option"
  current_ratio :: "real option"
  profit_margin :: "real option"

text \<open>
  What a component is given to display: a string literal, a value as it is (\<^verbatim>\<open>null\<close>
  being \<^term>\<open>Value None\<close>), or a template literal \<^verbatim>\<open>`pre${v}suf`\<close>.
\<close>

datatype cell = Text string | Value "real option" | Template string "real option" string

text \<open>JavaScript truthiness of a number or \<^verbatim>\<open>null\<close>: \<^verbatim>\<open>null\<close>, \<^verbatim>\<open>undefined\<close> and \<^verbatim>\<open>0\<close> are falsy.\<close>

definition js_truthy :: "real option \<Rightarrow> bool" where
  "js_truthy v = (case v of None \<Rightarrow> False | Some x \<Rightarrow> x \<noteq> 0)"

text \<open>
  \<^verbatim>\<open>
  <KpiCard label="Market Cap" value={`$${kpis.market_cap}B`} ... />
  <KpiCard label="P/E Ratio" value={kpis.pe_ratio || 'N/A'}
           valueColor={getPERatioColor(kpis.pe_ratio)} ... />
  <KpiCard label="Dividend Yield"
           value={kpis.dividend_yield ? `${kpis.dividend_yield}%` : 'N/A'} ... />
  <KpiCard label="Volume" value={`${kpis.volume}M`} ... />
  \<close>
\<close>

definition market_cap_card :: "'a kpis_scheme \<Rightarrow> cell" where
  "market_cap_card k = Template ''$'' (market_cap k) ''B''"

definition pe_ratio_card :: "'a kpis_scheme \<Rightarrow> cell" where
  "pe_ratio_card k = (if js_truthy (pe_ratio k) then Value (pe_ratio k) else Text ''N/A'')"

definition dividend_yield_card :: "'a kpis_scheme \<Rightarrow> cell" where
  "dividend_yield_card k =
     (if js_truthy (dividend_yield k) then Template [] (dividend_yield k) ''%'' else Text ''N/A'')"

definition volume_card :: "'a kpis_scheme \<Rightarrow> cell" where
  "volume_card k = Template [] (volume k) ''M''"

text \<open>
  \<^verbatim>\<open>
  export const getPERatioColor = (pe) => {
    if (!pe || pe === 0) return '#94a3b8';
    if (pe < 15) return '#22c55e';
    if (pe < 30) return '#f59e0b';
    return '#ef4444';
  };
  \<close>
\<close>

definition getPERatioColor :: "real option \<Rightarrow> string" where
  "getPERatioColor pe =
     (if \<not> js_truthy pe \<or> pe = Some 0 then ''#94a3b8''
      else case pe of
        Some x \<Rightarrow> if x < 15 then ''#22c55e'' else if x < 30 then ''#f59e0b'' else ''#ef4444''
      | None \<Rightarrow> ''#94a3b8'')"

text \<open>
  \<^verbatim>\<open>
  export const MetricRow = ({ label, value, valueColor }) => ( ... {value ?? 'N/A'} ... );

  <MetricRow label="52W High"      value={kpis.high_52w      ? `$${kpis.high_52w}`      : null} />
  <MetricRow label="52W Low"       value={kpis.low_52w       ? `$${kpis.low_52w}`       : null} />
  <MetricRow label="Beta"          value={kpis.beta          || null} />
  <MetricRow label="EPS"           value={kpis.eps           ? `$${kpis.eps}`           : null} />
  <MetricRow label="ROE"           value={kpis.roe           ? `${kpis.roe}%`           : null} />
  <MetricRow label="Debt / Equity" value={kpis.debt_to_equity || null} />
  <MetricRow label="Current Ratio" value={kpis.current_ratio  || null} />
  <MetricRow label="Profit Margin" value={kpis.profit_margin  ? `${kpis.profit_margin}%` : null} />
  \<close>
  \<^verbatim>\<open>??\<close> replaces \<^verbatim>\<open>null\<close> and \<^verbatim>\<open>undefined\<close> only.
\<close>

definition MetricRow :: "cell \<Rightarrow> cell" where
  "MetricRow v = (case v of Value None \<Rightarrow> Text ''N/A'' | _ \<Rightarrow> v)"

definition high_52w_row :: "'a kpis_scheme \<Rightarrow> cell" where
  "high_52w_row k =
     MetricRow (if js_truthy (high_52w k) then Template ''$'' (high_52w k) [] else Value None)"

definition low_52w_row :: "'a kpis_scheme \<Rightarrow> cell" where
  "low_52w_row k =
     MetricRow (if js_truthy (low_52w k) then Template ''$'' (low_52w k) [] else Value None)"

definition beta_row :: "'a kpis_scheme \<Rightarrow> cell" where
  "beta_row k = MetricRow (if js_truthy (beta k) then Value (beta k) else Value None)"

definition eps_row :: "'a kpis_scheme \<Rightarrow> cell" where
  "eps_row k =
     MetricRow (if js_truthy (eps k) then Template ''$'' (eps k) [] else Value None)"

definition roe_row :: "'a kpis_scheme \<Rightarrow> cell" where
  "roe_row k =
     MetricRow (if js_truthy (roe k) then Template [] (roe k) ''%'' else Value None)"

definition debt_to_equity_row :: "'a kpis_scheme \<Rightarrow> cell" where
  "debt_to_equity_row k =
     MetricRow (if js_truthy (debt_to_equity k) then Value (debt_to_equity k) else Value None)"

definition current_ratio_row :: "'a kpis_scheme \<Rightarrow> cell" where
  "current_ratio_row k =
     MetricRow (if js_truthy (current_ratio k) then Value (current_ratio k) else Value None)"

definition profit_margin_row :: "'a kpis_scheme \<Rightarrow> cell" where
  "profit_margin_row k =
     MetricRow (if js_truthy (profit_margin k) then Template [] (profit_margin k) ''%''
                else Value None)"

text \<open>The number a cell puts on the screen, if it shows one.\<close>

fun shown :: "cell \<Rightarrow> real option" where
  "shown (Text t) = None"
| "shown (Value v) = v"
| "shown (Template pre v suf) = v"

text \<open>The ten fields the overview guards, and their cells, in the order of the source.\<close>

definition guarded_fields :: "'a kpis_scheme \<Rightarrow> real option list" where
  "guarded_fields k =
     [pe_ratio k, dividend_yield k, high_52w k, low_52w k, beta k, eps k, roe k,
      debt_to_equity k, current_ratio k, profit_margin k]"

definition guarded_cells :: "'a kpis_scheme \<Rightarrow> cell list" where
  "guarded_cells k =
     [pe_ratio_card k, dividend_yield_card k, high_52w_row k, low_52w_row k, beta_row k,
      eps_row k, roe_row k, debt_to_equity_row k, current_ratio_row k, profit_margin_row k]"

definition rendering_rule :: "real option \<Rightarrow> cell \<Rightarrow> bool" where
  "rendering_rule f c =
     ((c = Text ''N/A'') = (f = None \<or> f = Some 0)
      \<and> shown c = (if f = Some 0 then None else f))"

subsection \<open>The Piotroski scorer\<close>

text \<open>
  The front end only displays \<^verbatim>\<open>analysis.piotroski_score\<close>; the scorer runs in the back
  end. The definitions of this subsection follow sections 3, 4.1 and 4.2 of the
  specification.
\<close>

text \<open>
  Modelled from the spec: the record \<^verbatim>\<open>FinancialStatementYear\<close> of section 3 (the back
  end's statement data is missing from the sources). Every figure is nullable.
  \<^verbatim>\<open>total_liabilities\<close> is the figure section 4.1 derives equity from.
\<close>

record FinancialStatementYear =
  fiscal_year :: string
  total_assets :: "real option"
  total_liabilities :: "real option"
  net_income :: "real option"
  operating_cash_flow :: "real option"
  current_assets :: "real option"
  current_liabilities :: "real option"
  long_term_debt :: "real option"
  shares_outstanding :: "real option"
  gross_profit :: "real option"
  revenue :: "real option"

text \<open>
  Modelled from the spec: the guarded division of the missing \<^verbatim>\<open>RatioCalculator\<close>
  (section 4.1: "All divisions guard against zero/null denominators", the result is
  \<^verbatim>\<open>null\<close> rather than an exception).
\<close>

definition guarded_div :: "real option \<Rightarrow> real option \<Rightarrow> real option" where
  "guarded_div a b =
     (case (a, b) of
        (Some x, Some y) \<Rightarrow> if y = 0 then None else Some (x / y)
      | _ \<Rightarrow> None)"

text \<open>
  Modelled from the spec: the per-year values of the missing \<^verbatim>\<open>RatioCalculator\<close>
  (section 4.1): ROA = net_income / total_assets, gross margin = gross_profit / revenue,
  asset turnover = revenue / total_assets, current ratio = current_assets /
  current_liabilities, debt/equity = long_term_debt / (total_assets - total_liabilities),
  \<^verbatim>\<open>null\<close> when equity is not positive. The year's net income, operating cash flow
  and share count are carried along for the tests that read them.
\<close>

record RatioSet =
  r_roa :: "real option"
  r_net_income :: "real option"
  r_operating_cash_flow :: "real option"
  r_gross_margin :: "real option"
  r_asset_turnover :: "real option"
  r_current_ratio :: "real option"
  r_debt_to_equity :: "real option"
  r_shares_outstanding :: "real option"

text \<open>
  Modelled from the spec: the derived equity figure of the missing \<^verbatim>\<open>RatioCalculator\<close>
  (section 4.1: total_assets - total_liabilities where available, no figure when it is
  not positive).
\<close>

definition equity :: "'a FinancialStatementYear_scheme \<Rightarrow> real option" where
  "equity y =
     (case (total_assets y, total_liabilities y) of
        (Some a, Some l) \<Rightarrow> if a - l > 0 then Some (a - l) else None
      | _ \<Rightarrow> None)"

text \<open>
  Modelled from the spec: the missing \<^verbatim>\<open>RatioCalculator\<close> (section 4.1), applied to one
  year of statements.
\<close>

definition RatioCalculator :: "'a FinancialStatementYear_scheme \<Rightarrow> RatioSet" where
  "RatioCalculator y =
     \<lparr>r_roa = guarded_div (net_income y) (total_assets y),
      r_net_income = net_income y,
      r_operating_cash_flow = operating_cash_flow y,
      r_gross_margin = guarded_div (gross_profit y) (revenue y),
      r_asset_turnover = guarded_div (revenue y) (total_assets y),
      r_current_ratio = guarded_div (current_assets y) (current_liabilities y),
      r_debt_to_equity = guarded_div (long_term_debt y) (equity y),
      r_shares_outstanding = shares_outstanding y\<rparr>"

text \<open>
  Modelled from the spec: the test "a is positive" of the missing \<^verbatim>\<open>PiotroskiScorer\<close>
  (section 4.2). A test whose input is missing scores 0 (section 4.1: "any criterion
  whose required inputs are missing evaluates to 0").
\<close>

definition is_positive :: "real option \<Rightarrow> int" where
  "is_positive a = (case a of Some x \<Rightarrow> if x > 0 then 1 else 0 | None \<Rightarrow> 0)"

text \<open>
  Modelled from the spec: the test "a is greater than b" of the missing scorer
  (section 4.2, strict as section 9 asks), 0 when a number is missing.
\<close>

definition exceeds :: "real option \<Rightarrow> real option \<Rightarrow> int" where
  "exceeds a b =
     (case (a, b) of (Some x, Some y) \<Rightarrow> if x > y then 1 else 0 | _ \<Rightarrow> 0)"

text \<open>
  Modelled from the spec: the test "a did not increase over b" of the missing scorer
  (section 4.2), 0 when a number is missing.
\<close>

definition not_increased :: "real option \<Rightarrow> real option \<Rightarrow> int" where
  "not_increased a b =
     (case (a, b) of (Some x, Some y) \<Rightarrow> if x \<le> y then 1 else 0 | _ \<Rightarrow> 0)"

text \<open>
  Modelled from the spec: the labels of the nine criteria of the missing scorer
  (section 4.2), in its order.
\<close>

datatype criterion_name =
  RoaPositive | CashFlowPositive | RoaGrowth | EarningsQuality
  | DebtRatio | CurrentRatio | NoNewShares
  | GrossMargin | AssetTurnover

text \<open>
  Modelled from the spec: \<^verbatim>\<open>PiotroskiCriterion\<close> of section 3. \<open>detail\<close> holds the two
  numbers compared; the wording of the back end's message is not specified.
\<close>

record PiotroskiCriterion =
  criterion :: criterion_name
  score :: int
  detail :: "real option \<times> real option"

text \<open>
  Modelled from the spec: \<^verbatim>\<open>PiotroskiScore\<close> of section 3. The interpretation is kept
  as its tier; the sentence that goes with a tier is not specified.
\<close>

record PiotroskiScore =
  total_score :: int
  profitability :: "PiotroskiCriterion list"
  leverage :: "PiotroskiCriterion list"
  operating :: "PiotroskiCriterion list"
  interpretation_tier :: tier

text \<open>
  Modelled from the spec: the interpretation thresholds of the missing scorer
  (section 4.2: score \<open>\<ge> 7\<close>, 4 to 6, \<open>< 4\<close>).
\<close>

definition tier_of_score :: "int \<Rightarrow> tier" where
  "tier_of_score t = (if t \<ge> 7 then Solid else if t \<ge> 4 then Average else Weak)"

text \<open>
  Modelled from the spec: the value of the prior year, absent when the series has no
  prior year (section 4.2: such a criterion "scores 0, not omitted").
\<close>

definition prior_value :: "RatioSet option \<Rightarrow> (RatioSet \<Rightarrow> real option) \<Rightarrow> real option" where
  "prior_value prior f = (case prior of None \<Rightarrow> None | Some p \<Rightarrow> f p)"

text \<open>
  Modelled from the spec: one result \<open>{criterion, score, detail}\<close> of the missing scorer
  (section 4.2).
\<close>

definition make_criterion ::
  "criterion_name \<Rightarrow> (real option \<Rightarrow> real option \<Rightarrow> int) \<Rightarrow> real option \<Rightarrow> real option
     \<Rightarrow> PiotroskiCriterion" where
  "make_criterion n test a b = \<lparr>criterion = n, score = test a b, detail = (a, b)\<rparr>"

text \<open>
  Modelled from the spec: the four profitability tests of the missing scorer
  (section 4.2): ROA \<open>> 0\<close>, operating cash flow \<open>> 0\<close>, ROA above the prior year's,
  operating cash flow above net income.
\<close>

definition profitability_tests :: "RatioSet \<Rightarrow> RatioSet option \<Rightarrow> PiotroskiCriterion list" where
  "profitability_tests cur prior =
     [make_criterion RoaPositive (\<lambda>a b. is_positive a) (r_roa cur) (Some 0),
      make_criterion CashFlowPositive (\<lambda>a b. is_positive a) (r_operating_cash_flow cur) (Some 0),
      make_criterion RoaGrowth exceeds (r_roa cur) (prior_value prior r_roa),
      make_criterion EarningsQuality exceeds (r_operating_cash_flow cur) (r_net_income cur)]"

text \<open>
  Modelled from the spec: the three leverage and liquidity tests of the missing scorer
  (section 4.2): debt ratio not increased, current ratio improved, shares outstanding
  not increased, each against the prior year.
\<close>

definition leverage_tests :: "RatioSet \<Rightarrow> RatioSet option \<Rightarrow> PiotroskiCriterion list" where
  "leverage_tests cur prior =
     [make_criterion DebtRatio not_increased (r_debt_to_equity cur) (prior_value prior r_debt_to_equity),
      make_criterion CurrentRatio exceeds (r_current_ratio cur) (prior_value prior r_current_ratio),
      make_criterion NoNewShares not_increased (r_shares_outstanding cur)
        (prior_value prior r_shares_outstanding)]"

text \<open>
  Modelled from the spec: the two operating tests of the missing scorer (section 4.2):
  gross margin improved, asset turnover improved, each against the prior year.
\<close>

definition operating_tests :: "RatioSet \<Rightarrow> RatioSet option \<Rightarrow> PiotroskiCriterion list" where
  "operating_tests cur prior =
     [make_criterion GrossMargin exceeds (r_gross_margin cur) (prior_value prior r_gross_margin),
      make_criterion AssetTurnover exceeds (r_asset_turnover cur)
        (prior_value prior r_asset_turnover)]"

text \<open>
  Modelled from the spec: the missing \<^verbatim>\<open>PiotroskiScorer\<close> (section 4.2), a function of
  the current year's ratios and, when there is one, the prior year's. Nine tests in
  three groups of 4, 3 and 2; \<open>total_score\<close> is the sum of the nine scores.
\<close>

definition PiotroskiScorer :: "RatioSet \<Rightarrow> RatioSet option \<Rightarrow> PiotroskiScore" where
  "PiotroskiScorer cur prior =
     (let p = profitability_tests cur prior;
          l = leverage_tests cur prior;
          e = operating_tests cur prior;
          t = sum_list (map score p) + sum_list (map score l) + sum_list (map score e)
      in \<lparr>total_score = t, profitability = p, leverage = l, operating = e,
          interpretation_tier = tier_of_score t\<rparr>)"

text \<open>
  Modelled from the spec: scoring a statement series (sections 3 and 6: chronologically
  ascending, at least one year). The last year is the current one, the year before it
  the prior one. An empty series is outside the contract and has no score.
\<close>

definition score_series :: "'a FinancialStatementYear_scheme list \<Rightarrow> PiotroskiScore option" where
  "score_series ys =
     (case rev ys of
        [] \<Rightarrow> None
      | [y] \<Rightarrow> Some (PiotroskiScorer (RatioCalculator y) None)
      | y # p # _ \<Rightarrow> Some (PiotroskiScorer (RatioCalculator y) (Some (RatioCalculator p))))"

text \<open>The nine criteria of a score in one list, and the scores under one label.\<close>

definition criteria :: "PiotroskiScore \<Rightarrow> PiotroskiCriterion list" where
  "criteria s = profitability s @ leverage s @ operating s"

definition score_of :: "PiotroskiScore \<Rightarrow> criterion_name \<Rightarrow> int list" where
  "score_of s n = map score (filter (\<lambda>c. criterion c = n) (criteria s))"

text \<open>
  What the Piotroski tab shows of a score (\<^verbatim>\<open>tabs/PiotroskiTab.jsx\<close>): per category the
  number of met criteria and the number of criteria,
  \<^verbatim>\<open>
  const categories = [
    { ..., items: piotroski_score.profitability, ... },
    { ..., items: piotroski_score.leverage,      ... },
    { ..., items: piotroski_score.operating,     ... },
  ];
  ... {items.filter(c => c.score === 1).length}/{items.length}
  \<close>
  and the dash length of \<^verbatim>\<open>PiotroskiGauge\<close> (\<^verbatim>\<open>maxScore = 9\<close>, radius 68):
  \<^verbatim>\<open>const progress = (score / maxScore) * circumference;\<close>
\<close>

definition category_summary :: "PiotroskiCriterion list \<Rightarrow> nat \<times> nat" where
  "category_summary items = (length (filter (\<lambda>c. score c = 1) items), length items)"

definition categories :: "PiotroskiScore \<Rightarrow> PiotroskiCriterion list list" where
  "categories s = [profitability s, leverage s, operating s]"

definition gauge_circumference :: real where
  "gauge_circumference = pi * 68"

definition gauge_progress :: "int \<Rightarrow> real" where
  "gauge_progress s = (real_of_int s / 9) * gauge_circumference"

subsection \<open>The Buffett indicator\<close>

text \<open>
  The Buffett tab fetches \<^verbatim>\<open>/api/buffett-indicator\<close> and displays the entries; the
  engine that computes them runs in the back end. The front end fixes the four
  thresholds and the five bands of the legend:
  \<^verbatim>\<open>
  const thresholdMarkers = [75, 100, 125, 150];

  const items = [
    { range: '< 75%',    label: 'Sous-evalue',           color: '#22c55e' },
    { range: '75-100%',  label: 'Correctement valorise', color: '#60a5fa' },
    { range: '100-125%', label: 'Legerement surevalue',  color: '#f59e0b' },
    { range: '125-150%', label: 'Fortement surevalue',   color: '#ef4444' },
    { range: '> 150%',   label: 'Extremement surevalue', color: '#dc2626' },
  ];
  \<close>
  (accents dropped here). The bands are named as in the specification.
\<close>

datatype band =
  Undervalued | FairlyValued | SlightlyOvervalued | StronglyOvervalued | ExtremelyOvervalued

definition thresholdMarkers :: "real list" where
  "thresholdMarkers = [75, 100, 125, 150]"

definition legend_items :: "(band \<times> string) list" where
  "legend_items =
     [(Undervalued, ''#22c55e''), (FairlyValued, ''#60a5fa''), (SlightlyOvervalued, ''#f59e0b''),
      (StronglyOvervalued, ''#ef4444''), (ExtremelyOvervalued, ''#dc2626'')]"

text \<open>
  Modelled from the spec: the lower bound of a band in the table of the missing
  \<^verbatim>\<open>BuffettIndicatorEngine\<close> (section 4.4), inclusive. Ratios are not negative, so the
  first band starts at 0; by the rule of the inclusive lower bound the last band
  starts at 150.
\<close>

fun band_lower :: "band \<Rightarrow> real" where
  "band_lower Undervalued = 0"
| "band_lower FairlyValued = 75"
| "band_lower SlightlyOvervalued = 100"
| "band_lower StronglyOvervalued = 125"
| "band_lower ExtremelyOvervalued = 150"

text \<open>
  Modelled from the spec: the upper bound of a band in the table of the missing engine
  (section 4.4), exclusive; the last band has none.
\<close>

fun band_upper :: "band \<Rightarrow> real option" where
  "band_upper Undervalued = Some 75"
| "band_upper FairlyValued = Some 100"
| "band_upper SlightlyOvervalued = Some 125"
| "band_upper StronglyOvervalued = Some 150"
| "band_upper ExtremelyOvervalued = None"

text \<open>
  Modelled from the spec: membership of a ratio in a band (section 4.4: "inclusive on
  the lower bound, exclusive on the upper").
\<close>

definition in_band :: "band \<Rightarrow> real \<Rightarrow> bool" where
  "in_band b r = (band_lower b \<le> r \<and> (case band_upper b of None \<Rightarrow> True | Some u \<Rightarrow> r < u))"

text \<open>
  Modelled from the spec: the classification of the missing \<^verbatim>\<open>BuffettIndicatorEngine\<close>
  (section 4.4), reading the table from the top.
\<close>

definition classify :: "real \<Rightarrow> band" where
  "classify r =
     (if r < 75 then Undervalued
      else if r < 100 then FairlyValued
      else if r < 125 then SlightlyOvervalued
      else if r < 150 then StronglyOvervalued
      else ExtremelyOvervalued)"

text \<open>
  Modelled from the spec: the colour of a band in the entries of the missing engine
  (section 4.4), with the colour codes of the legend.
\<close>

definition band_color :: "band \<Rightarrow> string option" where
  "band_color b = map_of legend_items b"

text \<open>
  Modelled from the spec: what the Macro Data Provider supplies per country to the
  missing engine (section 6). A figure the provider cannot give is \<^term>\<open>None\<close>.
\<close>

record MacroInput =
  in_country :: string
  in_flag :: string
  in_market_cap :: "real option"
  in_gdp :: "real option"
  in_unit :: string
  in_source :: string

text \<open>
  Modelled from the spec: \<^verbatim>\<open>BuffettCountryEntry\<close> of section 3, the output of the
  missing engine. Every field but \<open>country\<close>, \<open>flag\<close> and \<open>error\<close> may be left
  unpopulated.
\<close>

record BuffettCountryEntry =
  country :: string
  flag :: string
  error :: bool
  entry_market_cap :: "real option"
  gdp :: "real option"
  unit :: "string option"
  ratio :: "int option"
  color :: "string option"
  entry_label :: "band option"
  message :: "string option"
  source :: "string option"

text \<open>
  Modelled from the spec: \<open>ratio = round(market_cap / gdp * 100)\<close> of the missing
  engine (section 4.4); \<open>round\<close> is rounding to the nearest integer (a tie goes up; the
  specification does not say which way a tie goes).
\<close>

definition buffett_ratio :: "real \<Rightarrow> real \<Rightarrow> int" where
  "buffett_ratio mc g = round (mc / g * 100)"

text \<open>
  Modelled from the spec: when the underlying data of a country is unavailable
  (section 4.4, section 7). Data is unavailable when the market capitalisation or the
  GDP is missing, or the GDP is zero (the division has no result).
\<close>

definition unavailable :: "MacroInput \<Rightarrow> bool" where
  "unavailable i =
     (case (in_market_cap i, in_gdp i) of
        (Some mc, Some g) \<Rightarrow> g = 0
      | _ \<Rightarrow> True)"

text \<open>
  Modelled from the spec: the entry of a country without data (section 3: "only
  \<open>country\<close>/\<open>flag\<close>/\<open>error\<close> are populated").
\<close>

definition error_entry :: "MacroInput \<Rightarrow> BuffettCountryEntry" where
  "error_entry i =
     \<lparr>country = in_country i, flag = in_flag i, error = True,
      entry_market_cap = None, gdp = None, unit = None, ratio = None, color = None,
      entry_label = None, message = None, source = None\<rparr>"

text \<open>
  Modelled from the spec: one entry of the missing engine. The message of a band is
  not specified and is taken as the parameter \<open>msg\<close>.
\<close>

definition buffett_entry :: "(band \<Rightarrow> string) \<Rightarrow> MacroInput \<Rightarrow> BuffettCountryEntry" where
  "buffett_entry msg i =
     (case (in_market_cap i, in_gdp i) of
        (Some mc, Some g) \<Rightarrow>
          if g = 0 then error_entry i
          else
            (let r = buffett_ratio mc g; b = classify (real_of_int r)
             in \<lparr>country = in_country i, flag = in_flag i, error = False,
                 entry_market_cap = Some mc, gdp = Some g, unit = Some (in_unit i),
                 ratio = Some r, color = band_color b, entry_label = Some b,
                 message = Some (msg b), source = Some (in_source i)\<rparr>)
      | _ \<Rightarrow> error_entry i)"

text \<open>
  Modelled from the spec: the batch of the missing engine (sections 4.4 and 5): one
  entry per country, in the order of the country list.
\<close>

definition BuffettIndicatorEngine ::
  "(band \<Rightarrow> string) \<Rightarrow> MacroInput list \<Rightarrow> BuffettCountryEntry list" where
  "BuffettIndicatorEngine msg inputs = map (buffett_entry msg) inputs"

text \<open>
  What the Buffett tab does with the entries (\<^verbatim>\<open>BuffettTab\<close>, \<^verbatim>\<open>CountryCard\<close>):
  \<^verbatim>\<open>
  const validData = countries.filter(c => !c.error);

  const CountryCard = ({ data, isSelected, onClick }) => {
    if (data.error) return ( ... {data.flag || <globe>} ... {data.country} - Donnees indisponibles ... );
    return ( ... {data.flag} {data.country} {data.ratio}% {data.label}
                 {data.market_cap}{data.unit} {data.gdp}{data.unit} ... );
  };
  \<close>
\<close>

definition validData :: "BuffettCountryEntry list \<Rightarrow> BuffettCountryEntry list" where
  "validData countries = filter (\<lambda>c. \<not> error c) countries"

datatype country_card =
  UnavailableCard string string
  | DetailCard BuffettCountryEntry

definition globe :: string where
  "globe = ''globe''"

definition CountryCard :: "BuffettCountryEntry \<Rightarrow> country_card" where
  "CountryCard data =
     (if error data then UnavailableCard (if flag data \<noteq> [] then flag data else globe) (country data)
      else DetailCard data)"

subsection \<open>Sample data\<close>

text \<open>
  Concrete inputs on which the properties below are evaluated: a dividend history as
  the overview tab receives it, a KPI object with a missing and a zero field, the macro
  data of scenarios C and E of the specification, and two statement years in the
  spirit of its scenario A.
\<close>

record dividend = yearly +
  amount :: real

definition dividend_history :: "dividend list" where
  "dividend_history =
     [\<lparr>year = ascii ''2023'', amount = 0.96\<rparr>, \<lparr>year = ascii ''2021'', amount = 0.85\<rparr>,
      \<lparr>year = ascii ''2022'', amount = 0.9\<rparr>, \<lparr>year = ascii ''2021'', amount = 0.22\<rparr>]"

definition letter_labels :: "yearly list" where
  "letter_labels = [\<lparr>year = ascii ''B''\<rparr>, \<lparr>year = ascii ''a''\<rparr>, \<lparr>year = ascii ''ab''\<rparr>]"

definition sample_kpis :: kpis where
  "sample_kpis =
     \<lparr>current_price = Some 189.5, price_change = Some (- 0.42), market_cap = Some 2950.3,
      pe_ratio = Some 29.4, dividend_yield = Some 0, volume = Some 51.2, beta = None,
      eps = Some 6.43, high_52w = Some 199.62, low_52w = Some 164.08, roe = Some 0,
      debt_to_equity = Some 1.8, current_ratio = None, profit_margin = Some 25.3\<rparr>"

definition country_msg :: "band \<Rightarrow> string" where
  "country_msg b = []"

definition scenario_c :: MacroInput where
  "scenario_c =
     \<lparr>in_country = ''United States'', in_flag = ''US'', in_market_cap = Some 25000,
      in_gdp = Some 21000, in_unit = ''B$'', in_source = ''FRED''\<rparr>"

definition macro_batch :: "MacroInput list" where
  "macro_batch =
     [scenario_c,
      \<lparr>in_country = ''Euro area'', in_flag = ''EU'', in_market_cap = Some 9000,
       in_gdp = Some 15000, in_unit = ''B$'', in_source = ''World Bank''\<rparr>,
      \<lparr>in_country = ''United Kingdom'', in_flag = ''GB'', in_market_cap = Some 3100,
       in_gdp = Some 3100, in_unit = ''B$'', in_source = ''World Bank''\<rparr>,
      \<lparr>in_country = ''Japan'', in_flag = ''JP'', in_market_cap = Some 6500,
       in_gdp = None, in_unit = ''B$'', in_source = ''World Bank''\<rparr>]"

definition year_2022 :: FinancialStatementYear where
  "year_2022 =
     \<lparr>fiscal_year = ''2022'', total_assets = Some 900, total_liabilities = Some 500,
      net_income = Some 30, operating_cash_flow = Some 45, current_assets = Some 300,
      current_liabilities = Some 200, long_term_debt = Some 200, shares_outstanding = Some 100,
      gross_profit = Some 240, revenue = Some 600\<rparr>"

definition year_2023 :: FinancialStatementYear where
  "year_2023 =
     \<lparr>fiscal_year = ''2023'', total_assets = Some 1000, total_liabilities = Some 500,
      net_income = Some 50, operating_cash_flow = Some 40, current_assets = Some 320,
      current_liabilities = Some 200, long_term_debt = Some 200, shares_outstanding = Some 104,
      gross_profit = Some 294, revenue = Some 700\<rparr>"

text \<open>A criterion is binary when its score is 0 or 1.\<close>

definition binary :: "PiotroskiCriterion \<Rightarrow> bool" where
  "binary c = (score c = 0 \<or> score c = 1)"

section \<open>Properties\<close>

subsection \<open>Score tiers\<close>

lemma getPiotroskiColor_label:
  "label (getPiotroskiColor s) = (if 7 \<le> s then ''SOLIDE'' else if 4 \<le> s then ''MOYEN'' else ''FAIBLE'')"
  by (simp add: getPiotroskiColor_def)

lemma tier_getPiotroskiColor:
  "tier_of_label (label (getPiotroskiColor s)) =
     Some (if 7 \<le> s then Solid else if 4 \<le> s then Average else Weak)"
  by (simp add: getPiotroskiColor_label tier_of_label_def)

lemma getScoreColor_thresholds:
  "(getScoreColor s = ''text-green-400'') = (7 \<le> s)"
  "(getScoreColor s = ''text-yellow-400'') = (4 \<le> s \<and> s \<le> 6)"
  "(getScoreColor s = ''text-red-400'') = (s < 4)"
  by (auto simp: getScoreColor_def)

lemma text_color_thresholds:
  "(text_color (getPiotroskiColor s) = ''#22c55e'') = (7 \<le> s)"
  "(text_color (getPiotroskiColor s) = ''#f59e0b'') = (4 \<le> s \<and> s \<le> 6)"
  "(text_color (getPiotroskiColor s) = ''#ef4444'') = (s < 4)"
  by (auto simp: getPiotroskiColor_def)

lemma tier_getScoreLabel:
  "tier_of_label (getScoreLabel s) =
     Some (if 7 \<le> s then Solid else if 4 \<le> s then Average else Weak)"
  by (simp add: getScoreLabel_def tier_of_label_def)

text \<open>
  Claim C4. The tier shown for a score is fixed by two thresholds: a score of 7 or more
  is the solid tier, a score from 4 to 6 the average tier, a score below 4 the weak
  tier. Both generations of the front end (\<open>getPiotroskiColor\<close>, and \<open>getScoreLabel\<close>
  with \<open>getScoreColor\<close>) pick the same tier, every score gets a tier, and no score gets
  two.
\<close>

theorem piotroski_tier_thresholds:
  fixes s :: int
  shows "(tier_of_label (label (getPiotroskiColor s)) = Some Solid) = (7 \<le> s)
       \<and> (tier_of_label (label (getPiotroskiColor s)) = Some Average) = (4 \<le> s \<and> s \<le> 6)
       \<and> (tier_of_label (label (getPiotroskiColor s)) = Some Weak) = (s < 4)
       \<and> tier_of_label (getScoreLabel s) = tier_of_label (label (getPiotroskiColor s))
       \<and> (getScoreColor s = ''text-green-400'') = (7 \<le> s)
       \<and> (getScoreColor s = ''text-yellow-400'') = (4 \<le> s \<and> s \<le> 6)
       \<and> (getScoreColor s = ''text-red-400'') = (s < 4)
       \<and> (\<exists>!t. tier_of_label (label (getPiotroskiColor s)) = Some t)
       \<and> ((7 \<le> s) \<or> (4 \<le> s \<and> s \<le> 6) \<or> (s < 4))
       \<and> \<not> (7 \<le> s \<and> 4 \<le> s \<and> s \<le> 6) \<and> \<not> (7 \<le> s \<and> s < 4) \<and> \<not> (4 \<le> s \<and> s \<le> 6 \<and> s < 4)"
proof -
  have t: "tier_of_label (label (getPiotroskiColor s)) =
             Some (if 7 \<le> s then Solid else if 4 \<le> s then Average else Weak)"
    by (rule tier_getPiotroskiColor)
  have a: "(tier_of_label (label (getPiotroskiColor s)) = Some Solid) = (7 \<le> s)"
    unfolding t by simp
  have b: "(tier_of_label (label (getPiotroskiColor s)) = Some Average) = (4 \<le> s \<and> s \<le> 6)"
    unfolding t by auto
  have c: "(tier_of_label (label (getPiotroskiColor s)) = Some Weak) = (s < 4)"
    unfolding t by auto
  have d: "tier_of_label (getScoreLabel s) = tier_of_label (label (getPiotroskiColor s))"
    unfolding t by (rule tier_getScoreLabel)
  have e: "\<exists>!t. tier_of_label (label (getPiotroskiColor s)) = Some t"
    unfolding t by auto
  have f: "(7 \<le> s) \<or> (4 \<le> s \<and> s \<le> 6) \<or> (s < 4)" by arith
  have g: "\<not> (7 \<le> s \<and> 4 \<le> s \<and> s \<le> 6) \<and> \<not> (7 \<le> s \<and> s < 4) \<and> \<not> (4 \<le> s \<and> s \<le> 6 \<and> s < 4)"
    by arith
  from a b c d e f g getScoreColor_thresholds [of s] show ?thesis by blast
qed

theorem piotroski_tier_thresholds_witness:
  "label (getPiotroskiColor 9) = ''SOLIDE'' \<and> label (getPiotroskiColor 7) = ''SOLIDE''
   \<and> label (getPiotroskiColor 6) = ''MOYEN'' \<and> label (getPiotroskiColor 4) = ''MOYEN''
   \<and> label (getPiotroskiColor 3) = ''FAIBLE'' \<and> label (getPiotroskiColor 0) = ''FAIBLE''
   \<and> tier_of_label (label (getPiotroskiColor 7)) = Some Solid
   \<and> tier_of_label (label (getPiotroskiColor 6)) = Some Average
   \<and> tier_of_label (label (getPiotroskiColor 3)) = Some Weak"
  using piotroski_tier_thresholds [of 7] piotroski_tier_thresholds [of 6]
    piotroski_tier_thresholds [of 3]
  by (simp add: getPiotroskiColor_def)

subsection \<open>Currency symbols\<close>

lemma own_keys:
  "map_of symbols c = None \<longleftrightarrow> c \<notin> {ascii ''USD'', ascii ''EUR'', ascii ''GBP'', ascii ''JPY''}"
  by (simp add: symbols_def)

lemma symbols_values_nonempty: "map_of symbols c = Some v \<Longrightarrow> v \<noteq> []"
  by (auto simp: symbols_def split: if_splits)

lemma proto_not_own: "c \<in> set object_prototype_keys \<Longrightarrow> map_of symbols c = None"
  by (auto simp: symbols_def object_prototype_keys_def ascii_def)

lemma getCurrencySymbol_cases:
  "getCurrencySymbol c =
     (case map_of symbols c of Some v \<Rightarrow> JStr v
      | None \<Rightarrow> if c \<in> set object_prototype_keys then JInherited c else JStr c)"
  by (auto simp: getCurrencySymbol_def property_read_def split: option.splits
      dest: symbols_values_nonempty)

lemma getCurrencySymbol_inherited:
  "c \<in> set object_prototype_keys \<Longrightarrow> getCurrencySymbol c = JInherited c"
  by (auto simp: getCurrencySymbol_cases dest: proto_not_own)

text \<open>
  Claim C10, as amended. \<open>getCurrencySymbol\<close> maps USD, EUR, GBP and JPY to the dollar,
  euro, pound and yen signs. Every other code that is not the name of a member of
  \<^verbatim>\<open>Object.prototype\<close> comes back unchanged, and a non-empty code never gives the empty
  string.
\<close>

theorem getCurrencySymbol_fallback:
  "getCurrencySymbol (ascii ''USD'') = JStr [0x24]
   \<and> getCurrencySymbol (ascii ''EUR'') = JStr [0x20AC]
   \<and> getCurrencySymbol (ascii ''GBP'') = JStr [0xA3]
   \<and> getCurrencySymbol (ascii ''JPY'') = JStr [0xA5]
   \<and> (c \<notin> {ascii ''USD'', ascii ''EUR'', ascii ''GBP'', ascii ''JPY''}
        \<and> c \<notin> set object_prototype_keys \<longrightarrow> getCurrencySymbol c = JStr c)
   \<and> (c \<noteq> [] \<longrightarrow> getCurrencySymbol c \<noteq> JStr [])"
proof -
  have 1: "getCurrencySymbol (ascii ''USD'') = JStr [0x24]"
    by (simp add: getCurrencySymbol_cases symbols_def ascii_def)
  have 2: "getCurrencySymbol (ascii ''EUR'') = JStr [0x20AC]"
    by (simp add: getCurrencySymbol_cases symbols_def ascii_def)
  have 3: "getCurrencySymbol (ascii ''GBP'') = JStr [0xA3]"
    by (simp add: getCurrencySymbol_cases symbols_def ascii_def)
  have 4: "getCurrencySymbol (ascii ''JPY'') = JStr [0xA5]"
    by (simp add: getCurrencySymbol_cases symbols_def ascii_def)
  have 5: "c \<notin> {ascii ''USD'', ascii ''EUR'', ascii ''GBP'', ascii ''JPY''}
        \<and> c \<notin> set object_prototype_keys \<longrightarrow> getCurrencySymbol c = JStr c"
    using own_keys [of c] by (auto simp: getCurrencySymbol_cases)
  have 6: "c \<noteq> [] \<longrightarrow> getCurrencySymbol c \<noteq> JStr []"
    by (auto simp: getCurrencySymbol_cases split: option.splits dest: symbols_values_nonempty)
  from 1 2 3 4 5 6 show ?thesis by blast
qed

theorem getCurrencySymbol_fallback_witness:
  "getCurrencySymbol (ascii ''CHF'') = JStr (ascii ''CHF'')
   \<and> getCurrencySymbol (ascii ''CHF'') \<noteq> JStr []"
  using getCurrencySymbol_fallback [of "ascii ''CHF''"]
  by (simp add: ascii_def object_prototype_keys_def)

text \<open>
  The claim as first stated fails twice: the empty code gives the empty string, and the
  code \<^verbatim>\<open>constructor\<close> gives the inherited \<^verbatim>\<open>Object\<close> function, not the code.
\<close>

theorem getCurrencySymbol_total_counterexample:
  "getCurrencySymbol [] = JStr []
   \<and> getCurrencySymbol (ascii ''constructor'') \<noteq> JStr (ascii ''constructor'')"
  by (simp add: getCurrencySymbol_cases symbols_def ascii_def object_prototype_keys_def)

subsection \<open>Geometry of the Buffett tab\<close>

lemma circumference_pos: "0 < circumference"
  by (simp add: circumference_def radius_def)

lemma progress_le: "progress r \<le> circumference"
proof -
  have "min r maxRatio / maxRatio \<le> 1" by (simp add: maxRatio_def)
  then have "(min r maxRatio / maxRatio) * circumference \<le> 1 * circumference"
    using circumference_pos by (intro mult_right_mono) simp_all
  then show ?thesis by (simp add: progress_def)
qed

lemma progress_nonneg: "0 \<le> r \<Longrightarrow> 0 \<le> progress r"
  using circumference_pos by (simp add: progress_def maxRatio_def)

lemma bar_width_le: "bar_width r \<le> 100"
  by (simp add: bar_width_def)

lemma bar_width_nonneg: "0 \<le> r \<Longrightarrow> 0 \<le> bar_width r"
  by (simp add: bar_width_def)

text \<open>
  Claim C9. For a ratio \<open>r \<ge> 0\<close> the dash length of the gauge lies between 0 and the
  length of the half circle, it is the dash length of the ratio clamped at 200, and
  the width of a comparison bar lies between 0 and 100 percent.
\<close>

theorem buffett_geometry_bounded:
  assumes "0 \<le> r"
  shows "0 \<le> progress r \<and> progress r \<le> circumference
       \<and> progress r = progress (min r 200)
       \<and> 0 \<le> bar_width r \<and> bar_width r \<le> 100"
proof -
  have "progress r = progress (min r 200)"
    by (simp add: progress_def maxRatio_def)
  with assms show ?thesis
    by (simp add: progress_nonneg progress_le bar_width_le bar_width_nonneg)
qed

theorem buffett_geometry_bounded_witness:
  "progress 1000 = circumference \<and> bar_width 1000 = 100
   \<and> progress 119 \<le> circumference \<and> bar_width 119 \<le> 100 \<and> 0 \<le> progress 119"
proof -
  have h: "(0::real) \<le> 1000" "(0::real) \<le> 119" by simp_all
  show ?thesis
    using buffett_geometry_bounded [OF h(1)] buffett_geometry_bounded [OF h(2)]
    by (simp add: progress_def bar_width_def maxRatio_def)
qed

subsection \<open>Sorting by year\<close>

lemma compare_lists_flip: "compare_lists b a = - compare_lists a b"
  by (induction a b rule: compare_lists.induct) auto

lemma compare_lists_trans:
  "compare_lists a b \<le> 0 \<Longrightarrow> compare_lists b c \<le> 0 \<Longrightarrow> compare_lists a c \<le> 0"
proof (induction a b arbitrary: c rule: compare_lists.induct)
  case 1
  then show ?case by simp
next
  case (2 y ys)
  then show ?case by (cases c) auto
next
  case (3 x xs)
  then show ?case by simp
next
  case (4 x xs y ys)
  show ?case
  proof (cases c)
    case Nil
    with 4 show ?thesis by (auto split: if_splits)
  next
    case (Cons z zs)
    with 4 show ?thesis by (auto split: if_splits)
  qed
qed

text \<open>\<open>compare_lists\<close> is the lexicographic order.\<close>

lemma compare_lists_lexord:
  "(compare_lists a b < 0) = ((a, b) \<in> lexord {(x, y). x < y})"
  by (induction a b rule: compare_lists.induct) auto

lemma compare_lists_eq: "(compare_lists a b = 0) = (a = b)"
  by (induction a b rule: compare_lists.induct) auto

text \<open>Comparing keys is a consistent comparator, whatever the key.\<close>

lemma consistent_by_key:
  "consistent_comparator (\<lambda>a b. compare_lists (key a) (key b))"
proof -
  have f: "(compare_lists (key a) (key b) < 0) = (0 < compare_lists (key b) (key a))" for a b
    using compare_lists_flip [of "key b" "key a"] by simp
  have t: "compare_lists (key a) (key b) \<le> 0 \<and> compare_lists (key b) (key c) \<le> 0
      \<longrightarrow> compare_lists (key a) (key c) \<le> 0" for a b c
    using compare_lists_trans [of "key a" "key b" "key c"] by blast
  show ?thesis unfolding consistent_comparator_def using f t by blast
qed

lemma consistent_code_unit_collation: "consistent_comparator code_unit_collation"
  using consistent_by_key [of "\<lambda>s. s"] by (simp add: code_unit_collation_def [abs_def])

lemma consistent_letter_collation: "consistent_comparator letter_collation"
  using consistent_by_key [of sort_key] by (simp add: letter_collation_def [abs_def])

lemma year_le_trans:
  "consistent_comparator lc \<Longrightarrow> year_le lc a b \<Longrightarrow> year_le lc b c \<Longrightarrow> year_le lc a c"
  unfolding year_le_def consistent_comparator_def by blast

lemma year_le_total: "consistent_comparator lc \<Longrightarrow> \<not> year_le lc a b \<Longrightarrow> year_le lc b a"
proof -
  assume c: "consistent_comparator lc" and n: "\<not> year_le lc a b"
  from n have "0 < lc (year a) (year b)" by (simp add: year_le_def)
  with c have "lc (year b) (year a) < 0" by (simp add: consistent_comparator_def)
  then show ?thesis by (simp add: year_le_def)
qed

lemma year_le_by_year: "(by_year lc a b \<le> 0) = year_le lc a b"
  by (simp add: by_year_def year_le_def)

lemma mset_insert_by: "mset (insert_by cmp x ys) = add_mset x (mset ys)"
  by (induction ys) auto

lemma mset_array_sort: "mset (array_sort cmp xs) = mset xs"
  by (induction xs) (auto simp: mset_insert_by)

lemma set_insert_by: "set (insert_by cmp x ys) = insert x (set ys)"
  by (induction ys) auto

lemma sorted_insert_by:
  assumes c: "consistent_comparator lc"
  shows "sorted_wrt (year_le lc) ys \<Longrightarrow> sorted_wrt (year_le lc) (insert_by (by_year lc) x ys)"
proof (induction ys)
  case Nil
  then show ?case by simp
next
  case (Cons y ys)
  show ?case
  proof (cases "year_le lc x y")
    case True
    then have "\<forall>z\<in>set ys. year_le lc x z"
      using Cons.prems by (auto intro: year_le_trans [OF c])
    with True Cons.prems show ?thesis by (simp add: year_le_by_year)
  next
    case False
    then have "year_le lc y x" by (rule year_le_total [OF c])
    with False Cons show ?thesis
      by (auto simp: year_le_by_year set_insert_by)
  qed
qed

lemma sorted_array_sort:
  "consistent_comparator lc \<Longrightarrow> sorted_wrt (year_le lc) (array_sort (by_year lc) xs)"
  by (induction xs) (auto intro: sorted_insert_by)

lemma insert_by_sorted_head:
  "sorted_wrt (year_le lc) (x # ys) \<Longrightarrow> insert_by (by_year lc) x ys = x # ys"
  by (cases ys) (auto simp: year_le_by_year)

text \<open>A stable sort leaves an ascending array as it is, ties included.\<close>

lemma array_sort_sorted:
  "sorted_wrt (year_le lc) xs \<Longrightarrow> array_sort (by_year lc) xs = xs"
proof (induction xs)
  case Nil
  then show ?case by simp
next
  case (Cons x xs)
  then have "array_sort (by_year lc) xs = xs" by simp
  with Cons.prems show ?case by (simp add: insert_by_sorted_head del: sorted_wrt.simps)
qed

lemma sortByYear_store_eq:
  "r < length h \<Longrightarrow> sortByYear_store lc r h = (length h, h @ [sortByYear lc (h ! r)])"
  by (simp add: sortByYear_store_def spread_def sort_in_place_def sortByYear_def nth_append)

lemma sortByYear_dividend_history:
  "sortByYear code_unit_collation dividend_history =
     [\<lparr>year = ascii ''2021'', amount = 0.85\<rparr>, \<lparr>year = ascii ''2021'', amount = 0.22\<rparr>,
      \<lparr>year = ascii ''2022'', amount = 0.9\<rparr>, \<lparr>year = ascii ''2023'', amount = 0.96\<rparr>]"
  by (simp add: sortByYear_def dividend_history_def by_year_def code_unit_collation_def
      ascii_def)

text \<open>
  The two collations differ on letters: the letter collation puts \<^verbatim>\<open>a\<close> and \<^verbatim>\<open>ab\<close>
  before \<^verbatim>\<open>B\<close>, the order of the code units puts \<^verbatim>\<open>B\<close> first.
\<close>

lemma sortByYear_letter_labels:
  "sortByYear letter_collation letter_labels =
     [\<lparr>year = ascii ''a''\<rparr>, \<lparr>year = ascii ''ab''\<rparr>, \<lparr>year = ascii ''B''\<rparr>]"
  "sortByYear code_unit_collation letter_labels =
     [\<lparr>year = ascii ''B''\<rparr>, \<lparr>year = ascii ''a''\<rparr>, \<lparr>year = ascii ''ab''\<rparr>]"
  by (simp_all add: sortByYear_def letter_labels_def by_year_def letter_collation_def
      code_unit_collation_def sort_key_def fold_case_def is_upper_def ascii_def)

text \<open>
  Claim C8. Let \<open>localeCompare\<close> be the collation of the host, a consistent comparator,
  and let \<open>r\<close> refer to an array of the store. The array \<open>sortByYear\<close> returns holds the
  elements of the input with their multiplicities, is ascending by year in the order
  of \<open>localeCompare\<close> (the string comparison the function calls), and sorting it again
  gives the same array. In the store the result is a new array; every array that was
  there before, the input among them, is as it was.
\<close>

theorem sortByYear_sorted_permutation:
  assumes "consistent_comparator localeCompare" and "r < length h"
  shows "mset (sortByYear localeCompare (h ! r)) = mset (h ! r)
       \<and> sorted_wrt (year_le localeCompare) (sortByYear localeCompare (h ! r))
       \<and> sortByYear localeCompare (sortByYear localeCompare (h ! r))
           = sortByYear localeCompare (h ! r)
       \<and> snd (sortByYear_store localeCompare r h) ! fst (sortByYear_store localeCompare r h)
           = sortByYear localeCompare (h ! r)
       \<and> fst (sortByYear_store localeCompare r h) \<noteq> r
       \<and> take (length h) (snd (sortByYear_store localeCompare r h)) = h
       \<and> snd (sortByYear_store localeCompare r h) ! r = h ! r"
proof -
  have p: "mset (sortByYear localeCompare (h ! r)) = mset (h ! r)"
    by (simp add: sortByYear_def mset_array_sort)
  have s: "sorted_wrt (year_le localeCompare) (sortByYear localeCompare (h ! r))"
    using assms(1) by (simp add: sortByYear_def sorted_array_sort)
  have i: "sortByYear localeCompare (sortByYear localeCompare (h ! r))
           = sortByYear localeCompare (h ! r)"
    unfolding sortByYear_def
    by (rule array_sort_sorted) (rule sorted_array_sort [OF assms(1)])
  have e: "sortByYear_store localeCompare r h
           = (length h, h @ [sortByYear localeCompare (h ! r)])"
    using assms(2) by (rule sortByYear_store_eq)
  have st: "snd (sortByYear_store localeCompare r h) ! fst (sortByYear_store localeCompare r h)
           = sortByYear localeCompare (h ! r)
       \<and> fst (sortByYear_store localeCompare r h) \<noteq> r
       \<and> take (length h) (snd (sortByYear_store localeCompare r h)) = h
       \<and> snd (sortByYear_store localeCompare r h) ! r = h ! r"
    unfolding e using assms(2) by (simp add: nth_append)
  from p s i st show ?thesis by blast
qed

theorem sortByYear_sorted_permutation_witness:
  "sortByYear letter_collation ([letter_labels] ! 0) =
     [\<lparr>year = ascii ''a''\<rparr>, \<lparr>year = ascii ''ab''\<rparr>, \<lparr>year = ascii ''B''\<rparr>]
   \<and> sorted_wrt (year_le letter_collation) (sortByYear letter_collation ([letter_labels] ! 0))
   \<and> mset (sortByYear letter_collation ([letter_labels] ! 0)) = mset letter_labels
   \<and> sortByYear_store letter_collation 0 [letter_labels]
       = (1, [letter_labels, sortByYear letter_collation letter_labels])
   \<and> sortByYear code_unit_collation ([dividend_history] ! 0) =
     [\<lparr>year = ascii ''2021'', amount = 0.85\<rparr>, \<lparr>year = ascii ''2021'', amount = 0.22\<rparr>,
      \<lparr>year = ascii ''2022'', amount = 0.9\<rparr>, \<lparr>year = ascii ''2023'', amount = 0.96\<rparr>]
   \<and> snd (sortByYear_store code_unit_collation 0 [dividend_history]) ! 0 = dividend_history"
proof -
  have h: "0 < length [letter_labels]" and h': "0 < length [dividend_history]" by simp_all
  show ?thesis
    using sortByYear_sorted_permutation [OF consistent_letter_collation h]
      sortByYear_sorted_permutation [OF consistent_code_unit_collation h']
      sortByYear_letter_labels(1) sortByYear_dividend_history
    by (simp add: sortByYear_store_eq)
qed

subsection \<open>Rendering of the KPI set\<close>

lemma rule_or_value:
  "rendering_rule f (if js_truthy f then Value f else Text ''N/A'')"
  by (cases f) (auto simp: rendering_rule_def js_truthy_def)

lemma rule_template:
  "rendering_rule f (if js_truthy f then Template pre f suf else Text ''N/A'')"
  by (cases f) (auto simp: rendering_rule_def js_truthy_def)

lemma rule_row_value:
  "rendering_rule f (MetricRow (if js_truthy f then Value f else Value None))"
  by (cases f) (auto simp: rendering_rule_def js_truthy_def MetricRow_def)

lemma rule_row_template:
  "rendering_rule f (MetricRow (if js_truthy f then Template pre f suf else Value None))"
  by (cases f) (auto simp: rendering_rule_def js_truthy_def MetricRow_def)

lemma pe_color_grey: "(getPERatioColor pe = ''#94a3b8'') = (pe = None \<or> pe = Some 0)"
  by (cases pe) (auto simp: getPERatioColor_def js_truthy_def)

text \<open>
  The market capitalisation and the volume are interpolated without a guard: their
  cards never carry the \<^verbatim>\<open>N/A\<close> marker.
\<close>

lemma unguarded_cards:
  "market_cap_card k \<noteq> Text ''N/A''" "volume_card k \<noteq> Text ''N/A''"
  by (simp_all add: market_cap_card_def volume_card_def)

text \<open>
  Claim C5, as amended. Each of the ten guarded fields of the overview (P/E ratio,
  dividend yield, 52-week high and low, beta, EPS, ROE, debt/equity, current ratio,
  profit margin) is shown as \<^verbatim>\<open>N/A\<close> exactly when it is missing or zero, and otherwise
  its own value is shown; so a missing field is never shown as zero, and a zero is
  not told apart from a missing field. The P/E colour is the neutral grey exactly
  when the P/E card shows \<^verbatim>\<open>N/A\<close>.
\<close>

theorem overview_guarded_rendering:
  "list_all2 rendering_rule (guarded_fields k) (guarded_cells k)
   \<and> (getPERatioColor (pe_ratio k) = ''#94a3b8'') = (pe_ratio_card k = Text ''N/A'')"
proof -
  have a: "list_all2 rendering_rule (guarded_fields k) (guarded_cells k)"
    unfolding guarded_fields_def guarded_cells_def pe_ratio_card_def dividend_yield_card_def
      high_52w_row_def low_52w_row_def beta_row_def eps_row_def roe_row_def
      debt_to_equity_row_def current_ratio_row_def profit_margin_row_def
    by (simp only: list_all2_Cons list_all2_Nil rule_or_value rule_template rule_row_value
        rule_row_template simp_thms)
  have b: "(getPERatioColor (pe_ratio k) = ''#94a3b8'') = (pe_ratio_card k = Text ''N/A'')"
    using rule_or_value [of "pe_ratio k"]
    by (simp add: pe_color_grey pe_ratio_card_def rendering_rule_def)
  from a b show ?thesis by blast
qed

theorem overview_guarded_rendering_witness:
  "guarded_cells sample_kpis =
     [Value (Some 29.4), Text ''N/A'', Template ''$'' (Some 199.62) [], Template ''$'' (Some 164.08) [],
      Text ''N/A'', Template ''$'' (Some 6.43) [], Text ''N/A'', Value (Some 1.8), Text ''N/A'',
      Template [] (Some 25.3) ''%'']
   \<and> list_all2 rendering_rule (guarded_fields sample_kpis) (guarded_cells sample_kpis)
   \<and> getPERatioColor (pe_ratio sample_kpis) = ''#f59e0b''"
  using overview_guarded_rendering [of sample_kpis]
  by (simp add: guarded_cells_def sample_kpis_def pe_ratio_card_def dividend_yield_card_def
      high_52w_row_def low_52w_row_def beta_row_def eps_row_def roe_row_def
      debt_to_equity_row_def current_ratio_row_def profit_margin_row_def js_truthy_def
      MetricRow_def getPERatioColor_def)

text \<open>
  The claim as first stated fails: a dividend yield of zero, a ROE of zero and a P/E
  of zero are shown as \<^verbatim>\<open>N/A\<close>, as a missing dividend yield is.
\<close>

theorem zero_rendered_not_available_counterexample:
  "dividend_yield sample_kpis = Some 0
   \<and> dividend_yield_card sample_kpis = Text ''N/A''
   \<and> dividend_yield_card (sample_kpis\<lparr>dividend_yield := None\<rparr>) = Text ''N/A''
   \<and> roe sample_kpis = Some 0 \<and> roe_row sample_kpis = Text ''N/A''
   \<and> pe_ratio_card (sample_kpis\<lparr>pe_ratio := Some 0\<rparr>) = Text ''N/A''"
  by (simp add: sample_kpis_def dividend_yield_card_def roe_row_def pe_ratio_card_def
      js_truthy_def MetricRow_def)

subsection \<open>Buffett bands and ratio\<close>

lemma in_band_classify: "0 \<le> r \<Longrightarrow> in_band (classify r) r"
  by (simp add: classify_def in_band_def)

lemma in_band_unique: "in_band b r \<Longrightarrow> b = classify r"
  by (cases b) (auto simp: classify_def in_band_def)

text \<open>The four markers of the gauge are the lower bounds of the upper four bands.\<close>

lemma thresholds_are_bounds:
  "thresholdMarkers =
     map band_lower [FairlyValued, SlightlyOvervalued, StronglyOvervalued, ExtremelyOvervalued]"
  by (simp add: thresholdMarkers_def)

lemma legend_lists_every_band:
  "map fst legend_items =
     [Undervalued, FairlyValued, SlightlyOvervalued, StronglyOvervalued, ExtremelyOvervalued]"
  by (simp add: legend_items_def)

text \<open>
  Claim C3. For a ratio \<open>r \<ge> 0\<close> exactly one band contains \<open>r\<close>, and it is the band the
  classification returns. The bands are \<open>[0, 75)\<close>, \<open>[75, 100)\<close>, \<open>[100, 125)\<close>,
  \<open>[125, 150)\<close> and \<open>[150, \<infinity>)\<close>: lower bound included, upper bound excluded. The
  ratio 150 is in the last band only.
\<close>

theorem buffett_bands_partition:
  assumes "0 \<le> r"
  shows "(\<exists>!b. in_band b r) \<and> in_band (classify r) r
       \<and> (classify r = Undervalued) = (r < 75)
       \<and> (classify r = FairlyValued) = (75 \<le> r \<and> r < 100)
       \<and> (classify r = SlightlyOvervalued) = (100 \<le> r \<and> r < 125)
       \<and> (classify r = StronglyOvervalued) = (125 \<le> r \<and> r < 150)
       \<and> (classify r = ExtremelyOvervalued) = (150 \<le> r)
       \<and> classify 150 = ExtremelyOvervalued"
proof -
  have u: "\<exists>!b. in_band b r"
    using in_band_classify [OF assms] in_band_unique by blast
  have 1: "(classify r = Undervalued) = (r < 75)" by (simp add: classify_def)
  have 2: "(classify r = FairlyValued) = (75 \<le> r \<and> r < 100)" by (auto simp: classify_def)
  have 3: "(classify r = SlightlyOvervalued) = (100 \<le> r \<and> r < 125)" by (auto simp: classify_def)
  have 4: "(classify r = StronglyOvervalued) = (125 \<le> r \<and> r < 150)" by (auto simp: classify_def)
  have 5: "(classify r = ExtremelyOvervalued) = (150 \<le> r)" by (auto simp: classify_def)
  have 6: "classify 150 = ExtremelyOvervalued" by (simp add: classify_def)
  from u in_band_classify [OF assms] 1 2 3 4 5 6 show ?thesis by blast
qed

theorem buffett_bands_partition_witness:
  "in_band ExtremelyOvervalued 150 \<and> \<not> in_band StronglyOvervalued 150
   \<and> classify 150 = ExtremelyOvervalued \<and> classify 0 = Undervalued \<and> classify 75 = FairlyValued
   \<and> classify 100 = SlightlyOvervalued \<and> classify 125 = StronglyOvervalued"
proof -
  have h: "(0::real) \<le> 150" by simp
  show ?thesis using buffett_bands_partition [OF h]
    by (simp add: classify_def in_band_def)
qed

text \<open>
  Claim C7. An entry whose GDP is positive (and whose market capitalisation is there)
  carries the ratio \<open>round (market_cap / gdp * 100)\<close> and the band of that ratio. For a
  market capitalisation of 25000 and a GDP of 21000 the ratio is 119, classified as
  slightly overvalued, the band from 100 to 125.
\<close>

theorem buffett_ratio_rounded:
  assumes "in_market_cap i = Some mc" and "in_gdp i = Some g" and "0 < g"
  shows "ratio (buffett_entry msg i) = Some (round (mc / g * 100))
       \<and> entry_label (buffett_entry msg i) = Some (classify (real_of_int (round (mc / g * 100))))
       \<and> buffett_ratio 25000 21000 = 119
       \<and> classify (real_of_int (buffett_ratio 25000 21000)) = SlightlyOvervalued
       \<and> in_band SlightlyOvervalued (real_of_int (buffett_ratio 25000 21000))"
proof -
  have r: "buffett_ratio 25000 21000 = 119"
    by (simp add: buffett_ratio_def round_def)
  have e: "ratio (buffett_entry msg i) = Some (round (mc / g * 100))"
    using assms by (simp add: buffett_entry_def buffett_ratio_def Let_def)
  have l: "entry_label (buffett_entry msg i) = Some (classify (real_of_int (round (mc / g * 100))))"
    using assms by (simp add: buffett_entry_def buffett_ratio_def Let_def)
  show ?thesis unfolding r using e l by (simp add: classify_def in_band_def)
qed

theorem buffett_ratio_rounded_witness:
  "ratio (buffett_entry country_msg scenario_c) = Some 119
   \<and> entry_label (buffett_entry country_msg scenario_c) = Some SlightlyOvervalued
   \<and> error (buffett_entry country_msg scenario_c) = False"
proof -
  have h: "in_market_cap scenario_c = Some 25000" "in_gdp scenario_c = Some 21000"
    "(0::real) < 21000"
    by (simp_all add: scenario_c_def)
  have r: "round (25000 / 21000 * 100 :: real) = 119" by (simp add: round_def)
  show ?thesis
    using buffett_ratio_rounded [OF h, of country_msg] r
    by (simp add: classify_def buffett_entry_def scenario_c_def)
qed

subsection \<open>Failures in the Buffett batch\<close>

lemma buffett_entry_unavailable: "unavailable i \<Longrightarrow> buffett_entry msg i = error_entry i"
  by (auto simp: unavailable_def buffett_entry_def split: option.splits)

lemma buffett_entry_available:
  "\<not> unavailable i \<Longrightarrow>
     \<exists>mc g. in_market_cap i = Some mc \<and> in_gdp i = Some g \<and> g \<noteq> 0
       \<and> error (buffett_entry msg i) = False
       \<and> ratio (buffett_entry msg i) = Some (round (mc / g * 100))
       \<and> entry_label (buffett_entry msg i) = Some (classify (real_of_int (round (mc / g * 100))))"
  by (auto simp: unavailable_def buffett_entry_def buffett_ratio_def Let_def split: option.splits)

lemma error_iff_unavailable: "error (buffett_entry msg i) = unavailable i"
  by (auto simp: unavailable_def buffett_entry_def error_entry_def Let_def split: option.splits)

lemma validData_engine:
  "validData (BuffettIndicatorEngine msg inputs) =
     BuffettIndicatorEngine msg (filter (\<lambda>i. \<not> unavailable i) inputs)"
  by (simp add: validData_def BuffettIndicatorEngine_def filter_map comp_def error_iff_unavailable)

lemma macro_batch_entries:
  "map (\<lambda>e. (country e, error e, ratio e, entry_label e))
       (BuffettIndicatorEngine country_msg macro_batch) =
     [(''United States'', False, Some 119, Some SlightlyOvervalued),
      (''Euro area'', False, Some 60, Some Undervalued),
      (''United Kingdom'', False, Some 100, Some SlightlyOvervalued),
      (''Japan'', True, None, None)]"
  by (simp add: BuffettIndicatorEngine_def macro_batch_def scenario_c_def buffett_entry_def
      buffett_ratio_def round_def classify_def error_entry_def Let_def)

text \<open>
  Claim C6. Let the data of country \<open>k\<close> of the batch be unavailable. Its entry has
  \<open>error = True\<close> and, besides \<open>country\<close> and \<open>flag\<close>, no field populated. The batch
  still has one entry per country; every country whose data is available has
  \<open>error = False\<close>, its rounded ratio and the band of it; the entry of any other country
  is the same whatever the data of country \<open>k\<close>. The tab keeps the entries without
  error for the comparison and shows the failed one as an unavailable card.
\<close>

theorem buffett_batch_failures_independent:
  assumes "k < length inputs" and "unavailable (inputs ! k)"
  shows "length (BuffettIndicatorEngine msg inputs) = length inputs
       \<and> BuffettIndicatorEngine msg inputs ! k =
           \<lparr>country = in_country (inputs ! k), flag = in_flag (inputs ! k), error = True,
            entry_market_cap = None, gdp = None, unit = None, ratio = None, color = None,
            entry_label = None, message = None, source = None\<rparr>
       \<and> (\<forall>j < length inputs. \<not> unavailable (inputs ! j) \<longrightarrow>
            error (BuffettIndicatorEngine msg inputs ! j) = False
            \<and> (\<exists>mc g. in_market_cap (inputs ! j) = Some mc \<and> in_gdp (inputs ! j) = Some g
                 \<and> ratio (BuffettIndicatorEngine msg inputs ! j) = Some (round (mc / g * 100))
                 \<and> entry_label (BuffettIndicatorEngine msg inputs ! j)
                     = Some (classify (real_of_int (round (mc / g * 100))))))
       \<and> (\<forall>j < length inputs. \<forall>x. j \<noteq> k \<longrightarrow>
            BuffettIndicatorEngine msg (inputs[k := x]) ! j = BuffettIndicatorEngine msg inputs ! j)
       \<and> validData (BuffettIndicatorEngine msg inputs) =
            BuffettIndicatorEngine msg (filter (\<lambda>i. \<not> unavailable i) inputs)
       \<and> CountryCard (BuffettIndicatorEngine msg inputs ! k) =
            UnavailableCard (if in_flag (inputs ! k) \<noteq> [] then in_flag (inputs ! k) else globe)
              (in_country (inputs ! k))"
proof -
  have 1: "length (BuffettIndicatorEngine msg inputs) = length inputs"
    by (simp add: BuffettIndicatorEngine_def)
  have n: "BuffettIndicatorEngine msg inputs ! j = buffett_entry msg (inputs ! j)"
    if "j < length inputs" for j
    using that by (simp add: BuffettIndicatorEngine_def)
  have 2: "BuffettIndicatorEngine msg inputs ! k = error_entry (inputs ! k)"
    using assms by (simp add: n buffett_entry_unavailable)
  have 3: "\<forall>j < length inputs. \<not> unavailable (inputs ! j) \<longrightarrow>
            error (BuffettIndicatorEngine msg inputs ! j) = False
            \<and> (\<exists>mc g. in_market_cap (inputs ! j) = Some mc \<and> in_gdp (inputs ! j) = Some g
                 \<and> ratio (BuffettIndicatorEngine msg inputs ! j) = Some (round (mc / g * 100))
                 \<and> entry_label (BuffettIndicatorEngine msg inputs ! j)
                     = Some (classify (real_of_int (round (mc / g * 100)))))"
  proof (intro allI impI)
    fix j assume j: "j < length inputs" and a: "\<not> unavailable (inputs ! j)"
    from buffett_entry_available [OF a, of msg] show
      "error (BuffettIndicatorEngine msg inputs ! j) = False
            \<and> (\<exists>mc g. in_market_cap (inputs ! j) = Some mc \<and> in_gdp (inputs ! j) = Some g
                 \<and> ratio (BuffettIndicatorEngine msg inputs ! j) = Some (round (mc / g * 100))
                 \<and> entry_label (BuffettIndicatorEngine msg inputs ! j)
                     = Some (classify (real_of_int (round (mc / g * 100)))))"
      unfolding n [OF j] by blast
  qed
  have 4: "\<forall>j < length inputs. \<forall>x. j \<noteq> k \<longrightarrow>
            BuffettIndicatorEngine msg (inputs[k := x]) ! j = BuffettIndicatorEngine msg inputs ! j"
    by (simp add: BuffettIndicatorEngine_def)
  have 5: "CountryCard (BuffettIndicatorEngine msg inputs ! k) =
            UnavailableCard (if in_flag (inputs ! k) \<noteq> [] then in_flag (inputs ! k) else globe)
              (in_country (inputs ! k))"
    unfolding 2 by (simp add: CountryCard_def error_entry_def)
  from 1 2 3 4 5 validData_engine show ?thesis
    unfolding error_entry_def by blast
qed

theorem buffett_batch_failures_independent_witness:
  "unavailable (macro_batch ! 3)
   \<and> map (\<lambda>e. (country e, error e, ratio e, entry_label e))
         (BuffettIndicatorEngine country_msg macro_batch) =
     [(''United States'', False, Some 119, Some SlightlyOvervalued),
      (''Euro area'', False, Some 60, Some Undervalued),
      (''United Kingdom'', False, Some 100, Some SlightlyOvervalued),
      (''Japan'', True, None, None)]
   \<and> BuffettIndicatorEngine country_msg macro_batch ! 3 =
       \<lparr>country = ''Japan'', flag = ''JP'', error = True,
        entry_market_cap = None, gdp = None, unit = None, ratio = None, color = None,
        entry_label = None, message = None, source = None\<rparr>
   \<and> length (validData (BuffettIndicatorEngine country_msg macro_batch)) = 3
   \<and> CountryCard (BuffettIndicatorEngine country_msg macro_batch ! 3) = UnavailableCard ''JP'' ''Japan''"
proof -
  have h: "3 < length macro_batch" "unavailable (macro_batch ! 3)"
    by (simp_all add: macro_batch_def unavailable_def)
  have f: "length (filter (\<lambda>i. \<not> unavailable i) macro_batch) = 3"
    by (simp add: macro_batch_def scenario_c_def unavailable_def)
  have g: "in_flag (macro_batch ! 3) = ''JP''" "in_country (macro_batch ! 3) = ''Japan''"
    by (simp_all add: macro_batch_def)
  show ?thesis
    using buffett_batch_failures_independent [OF h, of country_msg] macro_batch_entries h(2) f g
    by (simp add: BuffettIndicatorEngine_def CountryCard_def)
qed

subsection \<open>The Piotroski score\<close>

lemma is_positive_binary: "is_positive a = 0 \<or> is_positive a = 1"
  by (simp add: is_positive_def split: option.splits)

lemma exceeds_binary: "exceeds a b = 0 \<or> exceeds a b = 1"
  by (simp add: exceeds_def split: option.splits)

lemma not_increased_binary: "not_increased a b = 0 \<or> not_increased a b = 1"
  by (simp add: not_increased_def split: option.splits)

lemma exceeds_no_prior: "exceeds a None = 0"
  by (simp add: exceeds_def split: option.splits)

lemma not_increased_no_prior: "not_increased a None = 0"
  by (simp add: not_increased_def split: option.splits)

lemma binary_profitability: "list_all binary (profitability_tests cur prior)"
  by (simp add: profitability_tests_def make_criterion_def binary_def is_positive_binary
      exceeds_binary)

lemma binary_leverage: "list_all binary (leverage_tests cur prior)"
  by (simp add: leverage_tests_def make_criterion_def binary_def not_increased_binary
      exceeds_binary)

lemma binary_operating: "list_all binary (operating_tests cur prior)"
  by (simp add: operating_tests_def make_criterion_def binary_def exceeds_binary)

lemma binary_sum_bounds:
  "list_all binary cs \<Longrightarrow>
     0 \<le> sum_list (map score cs) \<and> sum_list (map score cs) \<le> int (length cs)"
  by (induction cs) (auto simp: binary_def)

lemma binary_count:
  "list_all binary cs \<Longrightarrow>
     int (length (filter (\<lambda>c. score c = 1) cs)) = sum_list (map score cs)"
  by (induction cs) (auto simp: binary_def)

lemma scorer_fields:
  "profitability (PiotroskiScorer cur prior) = profitability_tests cur prior"
  "leverage (PiotroskiScorer cur prior) = leverage_tests cur prior"
  "operating (PiotroskiScorer cur prior) = operating_tests cur prior"
  "total_score (PiotroskiScorer cur prior) =
     sum_list (map score (profitability_tests cur prior))
     + sum_list (map score (leverage_tests cur prior))
     + sum_list (map score (operating_tests cur prior))"
  by (simp_all add: PiotroskiScorer_def Let_def)

lemma group_lengths:
  "length (profitability_tests cur prior) = 4"
  "length (leverage_tests cur prior) = 3"
  "length (operating_tests cur prior) = 2"
  by (simp_all add: profitability_tests_def leverage_tests_def operating_tests_def)

lemma score_series_produced:
  "score_series ys = Some s \<Longrightarrow> \<exists>cur prior. s = PiotroskiScorer cur prior"
  by (auto simp: score_series_def split: list.splits)

lemma interpretation_by_total:
  "interpretation_tier (PiotroskiScorer cur prior) =
     tier_of_score (total_score (PiotroskiScorer cur prior))"
  by (simp add: PiotroskiScorer_def Let_def)

lemma gauge_progress_bounded:
  "0 \<le> t \<Longrightarrow> t \<le> 9 \<Longrightarrow> 0 \<le> gauge_progress t \<and> gauge_progress t \<le> gauge_circumference"
proof -
  assume t: "0 \<le> t" "t \<le> 9"
  have c: "0 < gauge_circumference" by (simp add: gauge_circumference_def)
  from t have "real_of_int t / 9 \<le> 1" by simp
  then have "(real_of_int t / 9) * gauge_circumference \<le> 1 * gauge_circumference"
    using c by (intro mult_right_mono) simp_all
  moreover have "0 \<le> (real_of_int t / 9) * gauge_circumference"
    using t c by simp
  ultimately show ?thesis by (simp add: gauge_progress_def)
qed

text \<open>The tier label the front end derives from the total is the tier of the interpretation.\<close>

lemma front_end_tier_is_interpretation:
  "tier_of_label (label (getPiotroskiColor (total_score (PiotroskiScorer cur prior)))) =
     Some (interpretation_tier (PiotroskiScorer cur prior))"
  by (simp add: interpretation_by_total tier_getPiotroskiColor tier_of_score_def)

lemma score_two_years:
  "map (map score)
       (categories (PiotroskiScorer (RatioCalculator year_2023) (Some (RatioCalculator year_2022))))
     = [[1, 1, 1, 0], [1, 1, 0], [1, 1]]"
  by (simp add: categories_def scorer_fields profitability_tests_def leverage_tests_def
      operating_tests_def make_criterion_def RatioCalculator_def year_2022_def year_2023_def
      guarded_div_def equity_def prior_value_def is_positive_def exceeds_def not_increased_def)

text \<open>
  Claim C1. A score \<open>s\<close> produced by the scorer has four profitability, three leverage
  and two operating criteria; each of the nine has the score 0 or 1; \<open>total_score\<close> is
  the sum of the nine scores and lies between 0 and 9. The per-category counts of met
  criteria that the Piotroski tab prints add up to \<open>total_score\<close>, out of 4, 3 and 2,
  and the dash of the gauge stays within its half circle.
\<close>

theorem piotroski_total_is_sum_of_nine:
  assumes "s = PiotroskiScorer cur prior"
  shows "total_score s = sum_list (map score (criteria s))
       \<and> length (profitability s) = 4 \<and> length (leverage s) = 3 \<and> length (operating s) = 2
       \<and> length (criteria s) = 9
       \<and> list_all (\<lambda>c. score c = 0 \<or> score c = 1) (criteria s)
       \<and> 0 \<le> total_score s \<and> total_score s \<le> 9
       \<and> int (sum_list (map (fst \<circ> category_summary) (categories s))) = total_score s
       \<and> map (snd \<circ> category_summary) (categories s) = [4, 3, 2]
       \<and> 0 \<le> gauge_progress (total_score s)
       \<and> gauge_progress (total_score s) \<le> gauge_circumference"
proof -
  have bp: "list_all binary (profitability s)" and bl: "list_all binary (leverage s)"
    and bo: "list_all binary (operating s)"
    unfolding assms scorer_fields
    by (rule binary_profitability binary_leverage binary_operating)+
  have len: "length (profitability s) = 4" "length (leverage s) = 3" "length (operating s) = 2"
    unfolding assms scorer_fields by (rule group_lengths)+
  have tot: "total_score s = sum_list (map score (profitability s))
     + sum_list (map score (leverage s)) + sum_list (map score (operating s))"
    unfolding assms scorer_fields ..
  have 1: "total_score s = sum_list (map score (criteria s))"
    by (simp add: tot criteria_def)
  have 2: "length (criteria s) = 9"
    by (simp add: criteria_def len)
  have 3: "list_all (\<lambda>c. score c = 0 \<or> score c = 1) (criteria s)"
    using bp bl bo by (simp add: criteria_def binary_def [abs_def])
  have 4: "0 \<le> total_score s \<and> total_score s \<le> 9"
    using binary_sum_bounds [OF bp] binary_sum_bounds [OF bl] binary_sum_bounds [OF bo]
    by (simp add: tot len)
  have 5: "int (sum_list (map (fst \<circ> category_summary) (categories s))) = total_score s"
    using binary_count [OF bp] binary_count [OF bl] binary_count [OF bo]
    by (simp add: categories_def category_summary_def tot)
  have 6: "map (snd \<circ> category_summary) (categories s) = [4, 3, 2]"
    by (simp add: categories_def category_summary_def len)
  have 7: "0 \<le> gauge_progress (total_score s)
       \<and> gauge_progress (total_score s) \<le> gauge_circumference"
    using 4 by (simp add: gauge_progress_bounded)
  from 1 2 3 4 5 6 7 len show ?thesis by blast
qed

theorem piotroski_total_is_sum_of_nine_witness:
  "score_series [year_2022, year_2023] =
     Some (PiotroskiScorer (RatioCalculator year_2023) (Some (RatioCalculator year_2022)))
   \<and> map (map score)
         (categories (PiotroskiScorer (RatioCalculator year_2023) (Some (RatioCalculator year_2022))))
     = [[1, 1, 1, 0], [1, 1, 0], [1, 1]]
   \<and> total_score (PiotroskiScorer (RatioCalculator year_2023) (Some (RatioCalculator year_2022))) = 7
   \<and> length (criteria (PiotroskiScorer (RatioCalculator year_2023)
        (Some (RatioCalculator year_2022)))) = 9"
proof -
  have t: "sum_list (map score (criteria (PiotroskiScorer (RatioCalculator year_2023)
             (Some (RatioCalculator year_2022))))) = 7"
    using score_two_years by (simp add: categories_def criteria_def)
  show ?thesis
    using piotroski_total_is_sum_of_nine [OF refl, of "RatioCalculator year_2023"
        "Some (RatioCalculator year_2022)"]
      score_two_years t
    by (simp add: score_series_def)
qed

lemma score_of_single:
  "score_of (PiotroskiScorer cur prior) RoaPositive = [is_positive (r_roa cur)]"
  "score_of (PiotroskiScorer cur prior) CashFlowPositive = [is_positive (r_operating_cash_flow cur)]"
  "score_of (PiotroskiScorer cur prior) EarningsQuality =
     [exceeds (r_operating_cash_flow cur) (r_net_income cur)]"
  "score_of (PiotroskiScorer cur prior) RoaGrowth = [exceeds (r_roa cur) (prior_value prior r_roa)]"
  "score_of (PiotroskiScorer cur prior) DebtRatio =
     [not_increased (r_debt_to_equity cur) (prior_value prior r_debt_to_equity)]"
  "score_of (PiotroskiScorer cur prior) CurrentRatio =
     [exceeds (r_current_ratio cur) (prior_value prior r_current_ratio)]"
  "score_of (PiotroskiScorer cur prior) NoNewShares =
     [not_increased (r_shares_outstanding cur) (prior_value prior r_shares_outstanding)]"
  "score_of (PiotroskiScorer cur prior) GrossMargin =
     [exceeds (r_gross_margin cur) (prior_value prior r_gross_margin)]"
  "score_of (PiotroskiScorer cur prior) AssetTurnover =
     [exceeds (r_asset_turnover cur) (prior_value prior r_asset_turnover)]"
  by (simp_all add: score_of_def criteria_def scorer_fields profitability_tests_def
      leverage_tests_def operating_tests_def make_criterion_def)

lemma total_single_year:
  "total_score (PiotroskiScorer cur None) =
     is_positive (r_roa cur) + is_positive (r_operating_cash_flow cur)
     + exceeds (r_operating_cash_flow cur) (r_net_income cur)"
  by (simp add: scorer_fields profitability_tests_def leverage_tests_def operating_tests_def
      make_criterion_def prior_value_def exceeds_no_prior not_increased_no_prior)

text \<open>
  Claim C2. Let \<open>s\<close> be the score of a series of one year \<open>y\<close>. The five criteria ROA
  growth, debt ratio, current ratio, gross margin and asset turnover score 0. The
  criteria on the year alone are computed from its figures: ROA positive, operating
  cash flow positive, cash flow above net income. The score still has nine criteria,
  and \<open>total_score\<close> is at most 4.
\<close>

theorem single_year_series_scores:
  assumes "score_series [y] = Some s"
  shows "score_of s RoaGrowth = [0] \<and> score_of s DebtRatio = [0] \<and> score_of s CurrentRatio = [0]
       \<and> score_of s GrossMargin = [0] \<and> score_of s AssetTurnover = [0]
       \<and> score_of s RoaPositive = [is_positive (guarded_div (net_income y) (total_assets y))]
       \<and> score_of s CashFlowPositive = [is_positive (operating_cash_flow y)]
       \<and> score_of s EarningsQuality = [exceeds (operating_cash_flow y) (net_income y)]
       \<and> length (criteria s) = 9
       \<and> 0 \<le> total_score s \<and> total_score s \<le> 4"
proof -
  have s: "s = PiotroskiScorer (RatioCalculator y) None"
    using assms by (simp add: score_series_def)
  have yoy: "score_of s RoaGrowth = [0] \<and> score_of s DebtRatio = [0]
       \<and> score_of s CurrentRatio = [0]
       \<and> score_of s GrossMargin = [0] \<and> score_of s AssetTurnover = [0]"
    unfolding s
    by (simp add: score_of_single prior_value_def exceeds_no_prior not_increased_no_prior)
  have one: "score_of s RoaPositive = [is_positive (guarded_div (net_income y) (total_assets y))]
       \<and> score_of s CashFlowPositive = [is_positive (operating_cash_flow y)]
       \<and> score_of s EarningsQuality = [exceeds (operating_cash_flow y) (net_income y)]"
    unfolding s by (simp add: score_of_single RatioCalculator_def)
  have len: "length (criteria s) = 9"
    unfolding s by (simp add: criteria_def scorer_fields group_lengths)
  have tot: "0 \<le> total_score s \<and> total_score s \<le> 4"
    unfolding s total_single_year
    using is_positive_binary [of "r_roa (RatioCalculator y)"]
      is_positive_binary [of "r_operating_cash_flow (RatioCalculator y)"]
      exceeds_binary [of "r_operating_cash_flow (RatioCalculator y)"
        "r_net_income (RatioCalculator y)"]
    by arith
  from yoy one len tot show ?thesis by blast
qed

theorem single_year_series_scores_witness:
  "score_series [year_2022] = Some (PiotroskiScorer (RatioCalculator year_2022) None)
   \<and> map (map score) (categories (PiotroskiScorer (RatioCalculator year_2022) None))
       = [[1, 1, 0, 1], [0, 0, 0], [0, 0]]
   \<and> total_score (PiotroskiScorer (RatioCalculator year_2022) None) = 3
   \<and> score_of (PiotroskiScorer (RatioCalculator year_2022) None) RoaGrowth = [0]"
proof -
  have h: "score_series [year_2022] = Some (PiotroskiScorer (RatioCalculator year_2022) None)"
    by (simp add: score_series_def)
  have c: "map (map score) (categories (PiotroskiScorer (RatioCalculator year_2022) None))
       = [[1, 1, 0, 1], [0, 0, 0], [0, 0]]"
    by (simp add: categories_def scorer_fields profitability_tests_def leverage_tests_def
      operating_tests_def make_criterion_def RatioCalculator_def year_2022_def
      guarded_div_def equity_def prior_value_def is_positive_def exceeds_def not_increased_def)
  have t: "total_score (PiotroskiScorer (RatioCalculator year_2022) None) = 3"
    by (simp add: total_single_year RatioCalculator_def year_2022_def guarded_div_def
        is_positive_def exceeds_def)
  show ?thesis
    using single_year_series_scores [OF h] h c t by simp
qed

end
